theory Spec2Isabelle
  imports Main
begin

section \<open>Python values used by \<open>phishing_detector.py\<close>\<close>

text \<open>
  A Python \<open>str\<close> is a sequence of Unicode code points, so it is modelled as a list of
  code points (natural numbers); \<open>ascii\<close> embeds an ASCII literal. The three verdict lines
  of \<open>print_results\<close> start with characters outside ASCII, written by code point.
\<close>

type_synonym codepoint = nat
type_synonym pystr = "codepoint list"

definition ascii :: "string \<Rightarrow> pystr" where
  "ascii s = map of_char s"

text \<open>
  \<open>str.isspace\<close> per code point, which is what \<open>str.strip()\<close> without argument removes:
  the code points of bidirectional class WS, B or S, or of category Zs.
\<close>

definition py_isspace :: "codepoint \<Rightarrow> bool" where
  "py_isspace c \<longleftrightarrow>
     (9 \<le> c \<and> c \<le> 13) \<or> (28 \<le> c \<and> c \<le> 32) \<or> c = 133 \<or> c = 160 \<or> c = 5760 \<or>
     (8192 \<le> c \<and> c \<le> 8202) \<or> c = 8232 \<or> c = 8233 \<or> c = 8239 \<or> c = 8287 \<or> c = 12288"

definition strip :: "pystr \<Rightarrow> pystr" where
  "strip s = rev (dropWhile py_isspace (rev (dropWhile py_isspace s)))"

text \<open>\<open>sep.join(xs)\<close>.\<close>

fun join :: "pystr \<Rightarrow> pystr list \<Rightarrow> pystr" where
  "join sep [] = []"
| "join sep [x] = x"
| "join sep (x # y # rest) = x @ sep @ join sep (y # rest)"

text \<open>\<open>str(n)\<close> for an integer: decimal digits, with a minus sign when negative.\<close>

fun digits10 :: "nat \<Rightarrow> pystr" where
  "digits10 n = (if n < 10 then [48 + n] else digits10 (n div 10) @ [48 + n mod 10])"

declare digits10.simps [simp del]

definition str_int :: "int \<Rightarrow> pystr" where
  "str_int i = (if i < 0 then 45 # digits10 (nat (- i)) else digits10 (nat i))"

text \<open>
  The arguments a caller can hand to \<open>analyze_email\<close>: Python checks
  \<open>isinstance(email_text, str)\<close> at run time, so values other than strings are inputs too.
\<close>

datatype py_value =
    PyStr pystr
  | PyNone
  | PyInt int
  | PyBytes "nat list"
  | PyList "py_value list"

fun isinstance_str :: "py_value \<Rightarrow> bool" where
  "isinstance_str (PyStr _) = True"
| "isinstance_str _ = False"

text \<open>The exceptions the script raises or lets through; each carries its message.\<close>

datatype exn =
    RuntimeError pystr
  | ValueError pystr
  | FileNotFoundError pystr
  | AttributeError pystr
  | OSError pystr
  | OverflowError pystr
  | RecursionError pystr

fun str_exn :: "exn \<Rightarrow> pystr" where
  "str_exn (RuntimeError m) = m"
| "str_exn (ValueError m) = m"
| "str_exn (FileNotFoundError m) = m"
| "str_exn (AttributeError m) = m"
| "str_exn (OSError m) = m"
| "str_exn (OverflowError m) = m"
| "str_exn (RecursionError m) = m"

text \<open>A dict keeps insertion order; \<open>d.get(k, default)\<close> reads it.\<close>

type_synonym ('k, 'v) dict = "('k \<times> 'v) list"

definition dict_get :: "('k, 'v) dict \<Rightarrow> 'k \<Rightarrow> 'v \<Rightarrow> 'v" where
  "dict_get d k dflt = (case map_of d k of None \<Rightarrow> dflt | Some v \<Rightarrow> v)"

section \<open>Collaborators\<close>

text \<open>
  A match of the regex engine: the text it matched, \<open>m.group(0)\<close>, and what its capture
  groups took, \<open>m.groups('')\<close>, one string per group of the pattern.
\<close>

record re_match =
  m_whole :: pystr
  m_groups :: "pystr list"

text \<open>
  What a call into \<open>re\<close> comes to: a value, an \<open>re.error\<close> with its message, or any
  other exception (\<open>OverflowError\<close> for a repetition count too large, \<open>RecursionError\<close>
  for groups nested too deep), which is not an \<open>re.error\<close>.
\<close>

datatype 'a re_outcome = Found 'a | PatternError pystr | Raised exn

text \<open>
  An item of the list \<open>re.findall\<close> returns: a string, or a tuple of strings when the
  pattern has several groups. \<open>str\<close> of a string is the string; \<open>str\<close> of a tuple is its
  \<open>repr\<close>, taken from the environment.
\<close>

datatype py_match = MatchStr pystr | MatchTuple "pystr list"

datatype re_flag = IGNORECASE

text \<open>An entity of \<open>doc.ents\<close>: \<open>ent.text\<close> and \<open>ent.label_\<close>.\<close>

record entity =
  ent_text :: pystr
  ent_label :: pystr

text \<open>
  The JSON object of the configuration file, in the shape section 6 of the specification
  gives it: the two optional keys with their typed values, and the names of any other keys.
\<close>

record config =
  cfg_suspicious_patterns :: "(pystr, pystr) dict option"
  cfg_scoring_rules :: "(pystr, int) dict option"
  cfg_other_keys :: "pystr list"

text \<open>\<open>not config\<close>: a dict is falsy exactly when it has no key.\<close>

definition config_empty :: "config \<Rightarrow> bool" where
  "config_empty c \<longleftrightarrow>
     cfg_suspicious_patterns c = None \<and> cfg_scoring_rules c = None \<and> cfg_other_keys c = []"

text \<open>
  The libraries and the file system are parameters of the model:
  \<^item> \<open>spacy_load\<close>: the outcome of \<open>spacy.load("en_core_web_sm", disable=["parser"])\<close>,
    an exception or the pipeline, a function from a text to its entities;
  \<^item> \<open>open_read\<close>: opening and reading the file at a path, or the exception raised;
  \<^item> \<open>json_load\<close>: parsing, with \<open>Inl\<close> the message of a \<open>JSONDecodeError\<close>;
  \<^item> \<open>re_finditer\<close>: the regex engine, \<open>re.finditer(pattern, text, flags)\<close> run to its
    end: all non-overlapping matches of the pattern in the text, or what it raises;
  \<^item> \<open>repr_tuple\<close>: \<open>str\<close> of a tuple of strings.
\<close>

record env =
  spacy_load :: "exn + (pystr \<Rightarrow> entity list)"
  open_read :: "pystr \<Rightarrow> exn + pystr"
  json_load :: "pystr \<Rightarrow> pystr + config"
  re_finditer :: "pystr \<Rightarrow> pystr \<Rightarrow> re_flag list \<Rightarrow> re_match list re_outcome"
  repr_tuple :: "pystr list \<Rightarrow> pystr"

fun str_match :: "env \<Rightarrow> py_match \<Rightarrow> pystr" where
  "str_match E (MatchStr s) = s"
| "str_match E (MatchTuple gs) = repr_tuple E gs"

text \<open>
  \<open>re.findall\<close> over the engine: for each match the whole match when the pattern has no
  group, the group when it has one, the tuple of the groups when it has several.
\<close>

definition findall_item :: "re_match \<Rightarrow> py_match" where
  "findall_item m =
     (case m_groups m of
        [] \<Rightarrow> MatchStr (m_whole m)
      | [g] \<Rightarrow> MatchStr g
      | g # gs \<Rightarrow> MatchTuple (g # gs))"

definition re_findall :: "env \<Rightarrow> pystr \<Rightarrow> pystr \<Rightarrow> re_flag list \<Rightarrow> py_match list re_outcome" where
  "re_findall E pattern text fl =
     (case re_finditer E pattern text fl of
        Found ms \<Rightarrow> Found (map findall_item ms)
      | PatternError msg \<Rightarrow> PatternError msg
      | Raised e \<Rightarrow> Raised e)"

text \<open>Every call that leaves the detector is recorded, in order.\<close>

datatype event =
    SpacyLoad
  | OpenFile pystr
  | JsonLoad pystr
  | ReFindall pystr pystr "re_flag list"
  | NlpCall pystr
  | Print pystr

section \<open>The detector\<close>

text \<open>The attributes \<open>__init__\<close> assigns to \<open>self\<close>.\<close>

record detector =
  nlp :: "pystr \<Rightarrow> entity list"
  config :: config
  suspicious_patterns :: "(pystr, pystr) dict"
  scoring_rules :: "(pystr, int) dict"

text \<open>
  What a method call leaves behind: its result or the exception, the object afterwards,
  and the calls it made.
\<close>

record 'a outcome =
  result :: "exn + 'a"
  self_after :: detector
  effects :: "event list"

subsection \<open>Construction\<close>

text \<open>
  The names the class body binds: the three \<open>def\<close> statements at class level. The fourth
  \<open>def\<close> of the file, \<open>_load_config\<close>, is indented below \<open>__init__\<close>, after its
  \<open>try\<close> statement: it is a statement of that method's body and would bind a local
  variable of \<open>__init__\<close>, not an attribute of the class.
\<close>

definition class_attrs :: "pystr list" where
  "class_attrs = [ascii ''__init__'', ascii ''analyze_email'', ascii ''print_results'']"

text \<open>The attributes of the instance when line 12 looks \<open>_load_config\<close> up: line 11 has set \<open>nlp\<close>.\<close>

definition instance_attrs :: "pystr list" where
  "instance_attrs = [ascii ''nlp'']"

definition quoted :: "pystr \<Rightarrow> pystr" where
  "quoted s = 39 # s @ [39]"

definition no_attribute :: "pystr \<Rightarrow> exn" where
  "no_attribute name =
     AttributeError (quoted (ascii ''PhishingDetector'') @ ascii '' object has no attribute '' @ quoted name)"

text \<open>
  The body of \<open>_load_config\<close> (lines 20 to 29; the name cannot start with an underscore
  here). A \<open>FileNotFoundError\<close> of the open is raised again with the path in its message,
  any other exception of the open passes through, a \<open>JSONDecodeError\<close> becomes a
  \<open>ValueError\<close>, and so does a falsy configuration.
\<close>

definition load_config :: "env \<Rightarrow> pystr \<Rightarrow> (exn + config) \<times> event list" where
  "load_config E path =
     (case open_read E path of
        Inl (FileNotFoundError _) \<Rightarrow>
          (Inl (FileNotFoundError (ascii ''Config file not found at '' @ path)), [OpenFile path])
      | Inl e \<Rightarrow> (Inl e, [OpenFile path])
      | Inr content \<Rightarrow>
          (case json_load E content of
             Inl msg \<Rightarrow>
               (Inl (ValueError (ascii ''Invalid JSON format: '' @ msg)),
                [OpenFile path, JsonLoad content])
           | Inr cfg \<Rightarrow>
               (if config_empty cfg
                then (Inl (ValueError (ascii ''Empty or invalid config file'')),
                      [OpenFile path, JsonLoad content])
                else (Inr cfg, [OpenFile path, JsonLoad content]))))"

text \<open>
  The \<open>try\<close> block of \<open>__init__\<close> (lines 11 to 14). \<open>self._load_config\<close> is an attribute
  lookup on the instance, then on its class; only a name found there is called.
\<close>

definition try_block :: "env \<Rightarrow> pystr \<Rightarrow> (exn + detector) \<times> event list" where
  "try_block E config_path =
     (case spacy_load E of
        Inl e \<Rightarrow> (Inl e, [SpacyLoad])
      | Inr pipeline \<Rightarrow>
          (if ascii ''_load_config'' \<in> set (instance_attrs @ class_attrs)
           then (case load_config E config_path of
                   (Inl e, evs) \<Rightarrow> (Inl e, SpacyLoad # evs)
                 | (Inr cfg, evs) \<Rightarrow>
                     (Inr \<lparr>nlp = pipeline, config = cfg,
                           suspicious_patterns =
                             (case cfg_suspicious_patterns cfg of None \<Rightarrow> [] | Some d \<Rightarrow> d),
                           scoring_rules =
                             (case cfg_scoring_rules cfg of None \<Rightarrow> [] | Some d \<Rightarrow> d)\<rparr>,
                      SpacyLoad # evs))
           else (Inl (no_attribute (ascii ''_load_config'')), [SpacyLoad])))"

text \<open>
  \<open>__init__\<close>: every exception of the \<open>try\<close> block is caught (line 15) and replaced by a
  \<open>RuntimeError\<close> whose message is \<open>Initialization failed: \<close> followed by \<open>str(e)\<close>.
\<close>

definition init :: "env \<Rightarrow> pystr \<Rightarrow> (exn + detector) \<times> event list" where
  "init E config_path =
     (case try_block E config_path of
        (Inl e, evs) \<Rightarrow> (Inl (RuntimeError (ascii ''Initialization failed: '' @ str_exn e)), evs)
      | (Inr d, evs) \<Rightarrow> (Inr d, evs))"

text \<open>The default of the parameter \<open>config_path\<close>.\<close>

definition default_config_path :: pystr where
  "default_config_path = ascii ''config.yml''"

subsection \<open>Analysis\<close>

text \<open>
  The variables of a running \<open>analyze_email\<close>: \<open>self\<close>, the locals \<open>score\<close> and
  \<open>flags\<close>, and the calls made so far.
\<close>

record frame =
  fr_self :: detector
  fr_score :: int
  fr_flags :: "pystr list"
  fr_events :: "event list"

text \<open>
  One pass of the loop body, lines 42 to 48, for the item \<open>(label, pattern)\<close>. The
  \<open>except\<close> clause catches \<open>re.error\<close> only: any other exception of \<open>re.findall\<close> leaves
  the method, and is returned here beside the frame as it stood.
\<close>

definition match_entry :: "env \<Rightarrow> pystr \<Rightarrow> frame \<Rightarrow> pystr \<times> pystr \<Rightarrow> exn option \<times> frame" where
  "match_entry E email_text fr item =
     (case item of (label, pattern) \<Rightarrow>
        (let fr1 = fr\<lparr>fr_events := fr_events fr @ [ReFindall pattern email_text [IGNORECASE]]\<rparr>
         in case re_findall E pattern email_text [IGNORECASE] of
              Found matches \<Rightarrow>
                (None,
                 if matches \<noteq> []
                 then fr1\<lparr>fr_score := fr_score fr1 + dict_get (scoring_rules (fr_self fr1)) label 0,
                          fr_flags := fr_flags fr1 @
                            [label @ ascii '' found: '' @
                             join (ascii '', '') (map (str_match E) matches)]\<rparr>
                 else fr1)
            | PatternError msg \<Rightarrow>
                (None,
                 fr1\<lparr>fr_flags := fr_flags fr1 @
                       [ascii ''Invalid regex pattern for '' @ label @ ascii '': '' @ msg]\<rparr>)
            | Raised e \<Rightarrow> (Some e, fr1)))"

text \<open>
  The \<open>for\<close> loop of line 41 over \<open>items()\<close>, in the dict's order; it ends at the first
  exception that leaves a pass.
\<close>

fun match_loop :: "env \<Rightarrow> pystr \<Rightarrow> (pystr, pystr) dict \<Rightarrow> frame \<Rightarrow> exn option \<times> frame" where
  "match_loop E email_text [] fr = (None, fr)"
| "match_loop E email_text (item # items) fr =
     (case match_entry E email_text fr item of
        (Some e, fr') \<Rightarrow> (Some e, fr')
      | (None, fr') \<Rightarrow> match_loop E email_text items fr')"

text \<open>Lines 51 to 55: the entities of the text, and the penalty when none is an \<open>ORG\<close>.\<close>

definition org_check :: "pystr \<Rightarrow> frame \<Rightarrow> frame" where
  "org_check email_text fr =
     (let ents = nlp (fr_self fr) email_text;
          orgs = map ent_text (filter (\<lambda>ent. ent_label ent = ascii ''ORG'') ents);
          fr1 = fr\<lparr>fr_events := fr_events fr @ [NlpCall email_text]\<rparr>
      in if orgs = []
         then fr1\<lparr>fr_score := fr_score fr1 +
                     dict_get (scoring_rules (fr_self fr1)) (ascii ''missing_organization'') 0,
                  fr_flags := fr_flags fr1 @ [ascii ''No organization detected'']\<rparr>
         else fr1)"

text \<open>Lines 37 and 38: \<open>score = 0\<close>, \<open>flags = []\<close>, and nothing called yet.\<close>

definition start_frame :: "detector \<Rightarrow> frame" where
  "start_frame slf = \<lparr>fr_self = slf, fr_score = 0, fr_flags = [], fr_events = []\<rparr>"

text \<open>Line 35: the \<open>ValueError\<close>, raised before anything else is done.\<close>

definition invalid_text :: "detector \<Rightarrow> (int \<times> pystr list) outcome" where
  "invalid_text slf =
     \<lparr>result = Inl (ValueError (ascii ''Invalid or empty email text'')),
      self_after = slf, effects = []\<rparr>"

text \<open>
  \<open>analyze_email\<close>: the check of line 34, then the loop, then the entity check when the
  loop has ended without an exception, and the exception of the loop otherwise. The
  attributes of \<open>self\<close> hold what section 3 of the specification gives them: patterns are
  strings and weights are integers.
\<close>

definition analyze_email :: "env \<Rightarrow> detector \<Rightarrow> py_value \<Rightarrow> (int \<times> pystr list) outcome" where
  "analyze_email E slf v =
     (case v of
        PyStr email_text \<Rightarrow>
          (if strip email_text = [] then invalid_text slf
           else
             (let fr0 = start_frame slf
              in case match_loop E email_text (suspicious_patterns (fr_self fr0)) fr0 of
                   (Some e, fr1) \<Rightarrow>
                     \<lparr>result = Inl e, self_after = fr_self fr1, effects = fr_events fr1\<rparr>
                 | (None, fr1) \<Rightarrow>
                     (let fr2 = org_check email_text fr1
                      in \<lparr>result = Inr (fr_score fr2, fr_flags fr2),
                          self_after = fr_self fr2, effects = fr_events fr2\<rparr>)))
      | _ \<Rightarrow> invalid_text slf)"

subsection \<open>Report\<close>

definition likely_phishing_line :: pystr where
  "likely_phishing_line = 128721 # ascii '' Likely phishing attempt.''"

definition suspicious_line :: pystr where
  "suspicious_line =
     [9888, 65039] @ ascii '' Suspicious email '' @ [8212] @ ascii '' exercise caution.''"

definition safe_line :: pystr where
  "safe_line = 9989 # ascii '' Email appears safe.''"

text \<open>Lines 67 to 72.\<close>

definition verdict_line :: "int \<Rightarrow> pystr" where
  "verdict_line n =
     (if n \<ge> 7 then likely_phishing_line
      else if 4 \<le> n \<and> n < 7 then suspicious_line
      else safe_line)"

text \<open>\<open>print_results\<close>: the lines printed, in order; nothing is returned or assigned.\<close>

definition print_results :: "detector \<Rightarrow> int \<Rightarrow> pystr list \<Rightarrow> unit outcome" where
  "print_results slf n fl =
     \<lparr>result = Inr (),
      self_after = slf,
      effects = map Print
        ([ascii ''=== PHISHING DETECTION RESULTS ==='',
          ascii ''Email Analysis Score: '' @ str_int n,
          ascii ''Flags:''] @
         map (\<lambda>flag. ascii ''- '' @ flag) (if fl \<noteq> [] then fl else [ascii ''None'']) @
         [verdict_line n])\<rparr>"

section \<open>The result in the words of the specification\<close>

text \<open>
  For an entry of \<open>suspicious_patterns\<close> on a text: the call it makes; whether that call
  raises something other than \<open>re.error\<close>; whether it is triggered (a valid regex with at
  least one match); whether it is invalid (the engine rejects the pattern with
  \<open>re.error\<close>).
\<close>

definition entry_call :: "pystr \<Rightarrow> pystr \<times> pystr \<Rightarrow> event" where
  "entry_call text item = ReFindall (snd item) text [IGNORECASE]"

definition entry_raises :: "env \<Rightarrow> pystr \<Rightarrow> pystr \<times> pystr \<Rightarrow> bool" where
  "entry_raises E text item =
     (case re_findall E (snd item) text [IGNORECASE] of
        Found ms \<Rightarrow> False | PatternError msg \<Rightarrow> False | Raised e \<Rightarrow> True)"

definition entry_triggered :: "env \<Rightarrow> pystr \<Rightarrow> pystr \<times> pystr \<Rightarrow> bool" where
  "entry_triggered E text item =
     (case re_findall E (snd item) text [IGNORECASE] of
        Found ms \<Rightarrow> ms \<noteq> [] | PatternError msg \<Rightarrow> False | Raised e \<Rightarrow> False)"

definition entry_invalid :: "env \<Rightarrow> pystr \<Rightarrow> pystr \<times> pystr \<Rightarrow> bool" where
  "entry_invalid E text item =
     (case re_findall E (snd item) text [IGNORECASE] of
        Found ms \<Rightarrow> False | PatternError msg \<Rightarrow> True | Raised e \<Rightarrow> False)"

text \<open>No call of \<open>re.findall\<close> on the patterns of the detector raises anything but \<open>re.error\<close>.\<close>

definition patterns_safe :: "env \<Rightarrow> detector \<Rightarrow> pystr \<Rightarrow> bool" where
  "patterns_safe E D text =
     list_all (\<lambda>item. \<not> entry_raises E text item) (suspicious_patterns D)"

text \<open>Some entity of the text is tagged \<open>ORG\<close>.\<close>

definition has_org :: "detector \<Rightarrow> pystr \<Rightarrow> bool" where
  "has_org D text = list_ex (\<lambda>ent. ent_label ent = ascii ''ORG'') (nlp D text)"

text \<open>The configured weight of a label, 0 when the label has none.\<close>

definition weight_of :: "detector \<Rightarrow> pystr \<Rightarrow> int" where
  "weight_of D label = (case map_of (scoring_rules D) label of None \<Rightarrow> 0 | Some w \<Rightarrow> w)"

text \<open>
  What an entry adds to the score and to the flags, and what the entity check adds.
\<close>

definition entry_score :: "env \<Rightarrow> detector \<Rightarrow> pystr \<Rightarrow> pystr \<times> pystr \<Rightarrow> int" where
  "entry_score E D text item = (if entry_triggered E text item then weight_of D (fst item) else 0)"

definition entry_flags :: "env \<Rightarrow> pystr \<Rightarrow> pystr \<times> pystr \<Rightarrow> pystr list" where
  "entry_flags E text item =
     (case re_findall E (snd item) text [IGNORECASE] of
        Found ms \<Rightarrow>
          (if ms \<noteq> []
           then [fst item @ ascii '' found: '' @ join (ascii '', '') (map (str_match E) ms)]
           else [])
      | PatternError msg \<Rightarrow>
          [ascii ''Invalid regex pattern for '' @ fst item @ ascii '': '' @ msg]
      | Raised e \<Rightarrow> [])"

definition org_score :: "detector \<Rightarrow> pystr \<Rightarrow> int" where
  "org_score D text = (if has_org D text then 0 else weight_of D (ascii ''missing_organization''))"

definition org_flags :: "detector \<Rightarrow> pystr \<Rightarrow> pystr list" where
  "org_flags D text = (if has_org D text then [] else [ascii ''No organization detected''])"

text \<open>
  The triggered weights: one per triggered entry, and that of \<open>missing_organization\<close>
  when no entity is an organization.
\<close>

definition triggered_weights :: "env \<Rightarrow> detector \<Rightarrow> pystr \<Rightarrow> int list" where
  "triggered_weights E D text =
     map (\<lambda>item. weight_of D (fst item))
       (filter (entry_triggered E text) (suspicious_patterns D)) @
     (if has_org D text then [] else [weight_of D (ascii ''missing_organization'')])"

section \<open>Sample runs\<close>

text \<open>
  The pattern and the weight of the example in section 8 of the specification and a text
  with the link of the sample email, and four more patterns: the same with a capture
  group, \<open>(\<close>, a repetition count of twenty digits, and a thousand nested groups. The sample
  environment has no file at any path, answers for these patterns as Python 3.11 does on
  this text, and its pipeline finds no entity.
\<close>

definition url_pattern :: pystr where
  "url_pattern = ascii ''http://'' @ [92] @ ascii ''S+''"

definition group_pattern :: pystr where
  "group_pattern = ascii ''(http)://'' @ [92] @ ascii ''S+''"

definition huge_repeat_pattern :: pystr where
  "huge_repeat_pattern = ascii ''a{99999999999999999999}''"

definition nested_pattern :: pystr where
  "nested_pattern = replicate 1000 40 @ [97] @ replicate 1000 41"

definition sample_text :: pystr where
  "sample_text = ascii ''Verify at http://fakebank-login.com/verify''"

definition sample_url :: pystr where
  "sample_url = ascii ''http://fakebank-login.com/verify''"

definition sample_env :: env where
  "sample_env =
     \<lparr>spacy_load = Inr (\<lambda>t. []),
      open_read = (\<lambda>p. Inl (FileNotFoundError (ascii ''No such file or directory''))),
      json_load = (\<lambda>c. Inl (ascii ''Expecting value'')),
      re_finditer = (\<lambda>p t fl.
        if p = nested_pattern
        then Raised (RecursionError (ascii ''maximum recursion depth exceeded''))
        else if p = huge_repeat_pattern
        then Raised (OverflowError (ascii ''the repetition number is too large''))
        else if p = ascii ''(''
        then PatternError (ascii ''missing ), unterminated subpattern at position 0'')
        else if p = url_pattern \<and> t = sample_text
        then Found [\<lparr>m_whole = sample_url, m_groups = []\<rparr>]
        else if p = group_pattern \<and> t = sample_text
        then Found [\<lparr>m_whole = sample_url, m_groups = [ascii ''http'']\<rparr>]
        else Found []),
      repr_tuple = (\<lambda>gs. [])\<rparr>"

definition sample_detector :: detector where
  "sample_detector =
     \<lparr>nlp = (\<lambda>t. []),
      config = \<lparr>cfg_suspicious_patterns = None, cfg_scoring_rules = None, cfg_other_keys = []\<rparr>,
      suspicious_patterns = [(ascii ''url'', url_pattern), (ascii ''broken'', ascii ''('')],
      scoring_rules = [(ascii ''url'', 5), (ascii ''missing_organization'', 2)]\<rparr>"

text \<open>The same detector with other patterns.\<close>

definition group_detector :: detector where
  "group_detector = sample_detector\<lparr>suspicious_patterns := [(ascii ''url'', group_pattern)]\<rparr>"

definition huge_repeat_detector :: detector where
  "huge_repeat_detector =
     sample_detector\<lparr>suspicious_patterns :=
       [(ascii ''url'', url_pattern), (ascii ''huge'', huge_repeat_pattern)]\<rparr>"

definition nested_detector :: detector where
  "nested_detector =
     sample_detector\<lparr>suspicious_patterns :=
       [(ascii ''url'', url_pattern), (ascii ''nested'', nested_pattern)]\<rparr>"

section \<open>Construction always fails\<close>

lemma load_config_unbound: "ascii ''_load_config'' \<notin> set (instance_attrs @ class_attrs)"
  by (simp add: instance_attrs_def class_attrs_def ascii_def)

lemma try_block_fails:
  "try_block E p =
     (Inl (case spacy_load E of Inl e \<Rightarrow> e
           | Inr pipeline \<Rightarrow> no_attribute (ascii ''_load_config'')),
      [SpacyLoad])"
  unfolding try_block_def using load_config_unbound by (simp split: sum.splits)

lemma init_fails:
  "init E p =
     (Inl (RuntimeError (ascii ''Initialization failed: '' @
        str_exn (case spacy_load E of Inl e \<Rightarrow> e
                 | Inr pipeline \<Rightarrow> no_attribute (ascii ''_load_config'')))),
      [SpacyLoad])"
  by (simp add: init_def try_block_fails)

text \<open>
  C1, as stated, fails: with the model loaded and no file at \<open>config.yml\<close>, construction
  raises \<open>RuntimeError("Initialization failed: 'PhishingDetector' object has no attribute
  '_load_config'")\<close>, not the \<open>FileNotFoundError\<close> naming the path.
\<close>

theorem init_missing_file_not_FileNotFoundError:
  "open_read sample_env default_config_path =
     Inl (FileNotFoundError (ascii ''No such file or directory'')) \<and>
   fst (init sample_env default_config_path) =
     Inl (RuntimeError (ascii ''Initialization failed: '' @ quoted (ascii ''PhishingDetector'') @
            ascii '' object has no attribute '' @ quoted (ascii ''_load_config''))) \<and>
   fst (init sample_env default_config_path) \<noteq>
     Inl (FileNotFoundError (ascii ''Config file not found at '' @ default_config_path))"
  by (simp add: init_fails sample_env_def no_attribute_def)

text \<open>
  C1, amended: for every path whose file is missing, construction fails with the
  \<open>RuntimeError\<close> of line 16, whose message starts with \<open>Initialization failed: \<close>; this is
  the error that also wraps a failure of \<open>spacy.load\<close>, and no \<open>FileNotFoundError\<close>
  reaches the caller.
\<close>

theorem init_missing_file_RuntimeError:
  assumes "open_read E path = Inl (FileNotFoundError m)"
  shows "(\<exists>msg. fst (init E path) = Inl (RuntimeError (ascii ''Initialization failed: '' @ msg))) \<and>
         (\<forall>m'. fst (init E path) \<noteq> Inl (FileNotFoundError m'))"
  by (simp add: init_fails)

theorem init_missing_file_RuntimeError_witness:
  "open_read sample_env default_config_path =
     Inl (FileNotFoundError (ascii ''No such file or directory'')) \<and>
   (\<exists>msg. fst (init sample_env default_config_path) =
      Inl (RuntimeError (ascii ''Initialization failed: '' @ msg)))"
proof -
  have missing: "open_read sample_env default_config_path =
     Inl (FileNotFoundError (ascii ''No such file or directory''))"
    by (simp add: sample_env_def)
  from init_missing_file_RuntimeError [OF missing] missing show ?thesis by blast
qed

text \<open>
  C2: \<open>_load_config\<close> is bound neither on the instance nor on the class when line 12 looks
  it up, so for every environment and every path construction raises the wrapping
  \<open>RuntimeError\<close>: around the exception of \<open>spacy.load\<close> when that fails, around the
  \<open>AttributeError\<close> of the lookup otherwise. The only call made is \<open>spacy.load\<close>: no file
  is opened and nothing is parsed, and the outcome does not depend on the file system or
  the parser.
\<close>

theorem load_config_unreachable:
  "ascii ''_load_config'' \<notin> set (instance_attrs @ class_attrs) \<and>
   init E config_path =
     (Inl (RuntimeError (ascii ''Initialization failed: '' @
        str_exn (case spacy_load E of Inl e \<Rightarrow> e
                 | Inr pipeline \<Rightarrow> no_attribute (ascii ''_load_config'')))),
      [SpacyLoad]) \<and>
   init (E\<lparr>open_read := f, json_load := g\<rparr>) config_path = init E config_path"
  using load_config_unbound by (simp add: init_fails)

section \<open>The pattern loop\<close>

lemma start_frame_simps [simp]:
  "fr_self (start_frame D) = D" "fr_score (start_frame D) = 0"
  "fr_flags (start_frame D) = []" "fr_events (start_frame D) = []"
  by (simp_all add: start_frame_def)

lemma match_entry_safe:
  assumes "\<not> entry_raises E text item"
  shows "match_entry E text fr item =
           (None, fr\<lparr>fr_score := fr_score fr + entry_score E (fr_self fr) text item,
                     fr_flags := fr_flags fr @ entry_flags E text item,
                     fr_events := fr_events fr @ [entry_call text item]\<rparr>)"
  using assms
  by (cases item)
    (simp add: match_entry_def entry_raises_def entry_score_def entry_triggered_def
      entry_flags_def entry_call_def weight_of_def dict_get_def Let_def
      split: re_outcome.splits)

lemma match_entry_raises:
  assumes "re_findall E (snd item) text [IGNORECASE] = Raised e"
  shows "match_entry E text fr item =
           (Some e, fr\<lparr>fr_events := fr_events fr @ [entry_call text item]\<rparr>)"
  using assms by (cases item) (simp add: match_entry_def entry_call_def Let_def)

lemma match_entry_self [simp]: "fr_self (snd (match_entry E text fr item)) = fr_self fr"
  by (cases item) (simp add: match_entry_def Let_def split: re_outcome.splits)

lemma match_loop_self [simp]: "fr_self (snd (match_loop E text items fr)) = fr_self fr"
proof (induction items arbitrary: fr)
  case Nil
  show ?case by simp
next
  case (Cons item items)
  obtain r fr' where step: "match_entry E text fr item = (r, fr')"
    by (cases "match_entry E text fr item")
  then have same: "fr_self fr' = fr_self fr"
    using match_entry_self [of E "text" fr item] by simp
  show ?case
  proof (cases r)
    case None
    with step same Cons.IH [of fr'] show ?thesis by simp
  next
    case (Some e)
    with step same show ?thesis by simp
  qed
qed

lemma match_loop_safe:
  assumes "list_all (\<lambda>item. \<not> entry_raises E text item) items"
  shows "match_loop E text items fr =
           (None, fr\<lparr>fr_score := fr_score fr + sum_list (map (entry_score E (fr_self fr) text) items),
                     fr_flags := fr_flags fr @ concat (map (entry_flags E text) items),
                     fr_events := fr_events fr @ map (entry_call text) items\<rparr>)"
  using assms
proof (induction items arbitrary: fr)
  case Nil
  show ?case by simp
next
  case (Cons item items)
  from Cons.prems have safe: "\<not> entry_raises E text item"
    and rest: "list_all (\<lambda>item. \<not> entry_raises E text item) items"
    by simp_all
  show ?case
    by (simp add: match_entry_safe [OF safe] Cons.IH [OF rest] add.assoc)
qed

section \<open>The entity check\<close>

lemma org_check_self [simp]: "fr_self (org_check text fr) = fr_self fr"
  by (simp add: org_check_def Let_def)

lemma org_check_score:
  "fr_score (org_check text fr) = fr_score fr + org_score (fr_self fr) text"
  by (simp add: org_check_def Let_def org_score_def has_org_def weight_of_def dict_get_def
      filter_empty_conv list_ex_iff)

lemma org_check_flags:
  "fr_flags (org_check text fr) = fr_flags fr @ org_flags (fr_self fr) text"
  by (simp add: org_check_def Let_def org_flags_def has_org_def filter_empty_conv list_ex_iff)

lemma org_check_events: "fr_events (org_check text fr) = fr_events fr @ [NlpCall text]"
  by (simp add: org_check_def Let_def)

section \<open>The check of the input and the whole method\<close>

lemma dropWhile_all_iff: "(\<forall>x\<in>set (dropWhile P s). P x) \<longleftrightarrow> dropWhile P s = []"
proof
  assume all: "\<forall>x\<in>set (dropWhile P s). P x"
  show "dropWhile P s = []"
  proof (rule ccontr)
    assume ne: "dropWhile P s \<noteq> []"
    then have "\<not> P (hd (dropWhile P s))" by (rule hd_dropWhile)
    moreover from ne have "hd (dropWhile P s) \<in> set (dropWhile P s)" by simp
    ultimately show False using all by blast
  qed
next
  assume empty: "dropWhile P s = []"
  show "\<forall>x\<in>set (dropWhile P s). P x" unfolding empty by simp
qed

lemma strip_empty_iff: "strip s = [] \<longleftrightarrow> list_all py_isspace s"
  by (simp add: strip_def dropWhile_eq_Nil_conv dropWhile_all_iff list_all_iff)

lemma analyze_email_loop:
  assumes "strip text \<noteq> []"
    and "match_loop E text (suspicious_patterns D) (start_frame D) = (None, fr)"
  shows "analyze_email E D (PyStr text) =
           \<lparr>result = Inr (fr_score fr + org_score D text, fr_flags fr @ org_flags D text),
            self_after = D, effects = fr_events fr @ [NlpCall text]\<rparr>"
proof -
  have "fr_self fr = D"
    using match_loop_self [of E "text" "suspicious_patterns D" "start_frame D"] assms(2)
    by simp
  with assms show ?thesis
    by (simp add: analyze_email_def Let_def org_check_score org_check_flags org_check_events)
qed

lemma analyze_email_raises:
  assumes "strip text \<noteq> []"
    and "match_loop E text (suspicious_patterns D) (start_frame D) = (Some e, fr)"
  shows "analyze_email E D (PyStr text) =
           \<lparr>result = Inl e, self_after = D, effects = fr_events fr\<rparr>"
proof -
  have "fr_self fr = D"
    using match_loop_self [of E "text" "suspicious_patterns D" "start_frame D"] assms(2)
    by simp
  with assms show ?thesis
    by (simp add: analyze_email_def Let_def)
qed

lemma analyze_email_returns:
  assumes "strip text \<noteq> []" and "patterns_safe E D text"
  shows "analyze_email E D (PyStr text) =
           \<lparr>result =
              Inr (sum_list (map (entry_score E D text) (suspicious_patterns D)) + org_score D text,
                   concat (map (entry_flags E text) (suspicious_patterns D)) @ org_flags D text),
            self_after = D,
            effects = map (entry_call text) (suspicious_patterns D) @ [NlpCall text]\<rparr>"
proof -
  from assms(2) have safe:
    "list_all (\<lambda>item. \<not> entry_raises E text item) (suspicious_patterns D)"
    by (simp add: patterns_safe_def)
  show ?thesis
    by (simp add: analyze_email_loop [OF assms(1) match_loop_safe [OF safe]])
qed

section \<open>The sample runs, evaluated\<close>

lemma sample_text_valid: "strip sample_text \<noteq> []"
  by (simp add: strip_empty_iff sample_text_def ascii_def py_isspace_def)

lemma length_nested_pattern: "length nested_pattern = 2001"
  by (simp add: nested_pattern_def)

lemma shorter_not_nested: "length p < 2001 \<Longrightarrow> p \<noteq> nested_pattern"
  using length_nested_pattern by auto

lemma not_nested:
  "url_pattern \<noteq> nested_pattern" "group_pattern \<noteq> nested_pattern"
  "huge_repeat_pattern \<noteq> nested_pattern" "ascii ''('' \<noteq> nested_pattern"
  by (rule shorter_not_nested,
      simp add: url_pattern_def group_pattern_def huge_repeat_pattern_def ascii_def)+

lemma sample_findall_url:
  "re_findall sample_env url_pattern sample_text [IGNORECASE] = Found [MatchStr sample_url]"
  by (simp add: re_findall_def sample_env_def findall_item_def not_nested)
    (simp add: url_pattern_def huge_repeat_pattern_def ascii_def)

lemma sample_findall_group:
  "re_findall sample_env group_pattern sample_text [IGNORECASE] = Found [MatchStr (ascii ''http'')]"
  by (simp add: re_findall_def sample_env_def findall_item_def not_nested)
    (simp add: url_pattern_def group_pattern_def huge_repeat_pattern_def ascii_def)

lemma sample_findall_broken:
  "re_findall sample_env (ascii ''('') sample_text [IGNORECASE] =
     PatternError (ascii ''missing ), unterminated subpattern at position 0'')"
  by (simp add: re_findall_def sample_env_def not_nested)
    (simp add: huge_repeat_pattern_def ascii_def)

lemma sample_findall_huge:
  "re_findall sample_env huge_repeat_pattern sample_text [IGNORECASE] =
     Raised (OverflowError (ascii ''the repetition number is too large''))"
  by (simp add: re_findall_def sample_env_def not_nested)

lemma sample_findall_nested:
  "re_findall sample_env nested_pattern sample_text [IGNORECASE] =
     Raised (RecursionError (ascii ''maximum recursion depth exceeded''))"
  by (simp add: re_findall_def sample_env_def)

lemma sample_weights:
  "weight_of sample_detector (ascii ''url'') = 5"
  "weight_of sample_detector (ascii ''missing_organization'') = 2"
  by (simp_all add: weight_of_def sample_detector_def ascii_def)

lemma sample_no_org: "\<not> has_org sample_detector sample_text"
  by (simp add: has_org_def sample_detector_def)

lemma url_entry:
  "\<not> entry_raises sample_env sample_text (ascii ''url'', url_pattern)"
  "entry_triggered sample_env sample_text (ascii ''url'', url_pattern)"
  "entry_flags sample_env sample_text (ascii ''url'', url_pattern) =
     [ascii ''url found: http://fakebank-login.com/verify'']"
  by (simp_all add: entry_raises_def entry_triggered_def entry_flags_def sample_findall_url
      sample_url_def ascii_def)

lemma broken_entry:
  "\<not> entry_raises sample_env sample_text (ascii ''broken'', ascii ''('')"
  "\<not> entry_triggered sample_env sample_text (ascii ''broken'', ascii ''('')"
  "entry_flags sample_env sample_text (ascii ''broken'', ascii ''('') =
     [ascii ''Invalid regex pattern for broken: missing ), unterminated subpattern at position 0'']"
  by (simp_all add: entry_raises_def entry_triggered_def entry_flags_def sample_findall_broken)
    (simp add: ascii_def)

lemma group_entry:
  "\<not> entry_raises sample_env sample_text (ascii ''url'', group_pattern)"
  "entry_triggered sample_env sample_text (ascii ''url'', group_pattern)"
  "entry_flags sample_env sample_text (ascii ''url'', group_pattern) = [ascii ''url found: http'']"
  by (simp_all add: entry_raises_def entry_triggered_def entry_flags_def sample_findall_group
      ascii_def)

lemma sample_patterns:
  "suspicious_patterns sample_detector =
     [] @ (ascii ''url'', url_pattern) # [(ascii ''broken'', ascii ''('')]"
  by (simp add: sample_detector_def)

lemma sample_safe: "patterns_safe sample_env sample_detector sample_text"
  by (simp add: patterns_safe_def sample_patterns url_entry broken_entry)

lemma sample_analysis:
  "analyze_email sample_env sample_detector (PyStr sample_text) =
     \<lparr>result = Inr (7, [ascii ''url found: http://fakebank-login.com/verify'',
        ascii ''Invalid regex pattern for broken: missing ), unterminated subpattern at position 0'',
        ascii ''No organization detected'']),
      self_after = sample_detector,
      effects = [ReFindall url_pattern sample_text [IGNORECASE],
                 ReFindall (ascii ''('') sample_text [IGNORECASE],
                 NlpCall sample_text]\<rparr>"
  by (simp add: analyze_email_returns [OF sample_text_valid sample_safe] sample_patterns
      entry_score_def url_entry broken_entry org_score_def org_flags_def sample_no_org
      sample_weights entry_call_def)

lemma group_analysis:
  "analyze_email sample_env group_detector (PyStr sample_text) =
     \<lparr>result = Inr (7, [ascii ''url found: http'', ascii ''No organization detected'']),
      self_after = group_detector,
      effects = [ReFindall group_pattern sample_text [IGNORECASE], NlpCall sample_text]\<rparr>"
proof -
  have safe: "patterns_safe sample_env group_detector sample_text"
    by (simp add: patterns_safe_def group_detector_def group_entry)
  have w: "weight_of group_detector = weight_of sample_detector"
    by (rule ext) (simp add: weight_of_def group_detector_def)
  have org: "\<not> has_org group_detector sample_text"
    by (simp add: has_org_def group_detector_def sample_detector_def)
  have ps: "suspicious_patterns group_detector = [(ascii ''url'', group_pattern)]"
    by (simp add: group_detector_def)
  show ?thesis
    by (simp add: analyze_email_returns [OF sample_text_valid safe] ps
        entry_score_def group_entry org_score_def org_flags_def org w sample_weights
        entry_call_def)
qed

lemma raising_loop:
  assumes "\<not> entry_raises E text first"
    and "re_findall E (snd second) text [IGNORECASE] = Raised e"
  shows "match_loop E text [first, second] (start_frame D) =
           (Some e, \<lparr>fr_self = D, fr_score = entry_score E D text first,
                     fr_flags = entry_flags E text first,
                     fr_events = [entry_call text first, entry_call text second]\<rparr>)"
  by (simp add: match_entry_safe [OF assms(1)] match_entry_raises [OF assms(2)] start_frame_def)

lemma huge_analysis:
  "analyze_email sample_env huge_repeat_detector (PyStr sample_text) =
     \<lparr>result = Inl (OverflowError (ascii ''the repetition number is too large'')),
      self_after = huge_repeat_detector,
      effects = [ReFindall url_pattern sample_text [IGNORECASE],
                 ReFindall huge_repeat_pattern sample_text [IGNORECASE]]\<rparr>"
proof -
  have ps: "suspicious_patterns huge_repeat_detector =
      [(ascii ''url'', url_pattern), (ascii ''huge'', huge_repeat_pattern)]"
    by (simp add: huge_repeat_detector_def)
  have loop: "match_loop sample_env sample_text (suspicious_patterns huge_repeat_detector)
      (start_frame huge_repeat_detector) =
      (Some (OverflowError (ascii ''the repetition number is too large'')),
       \<lparr>fr_self = huge_repeat_detector,
        fr_score = entry_score sample_env huge_repeat_detector sample_text (ascii ''url'', url_pattern),
        fr_flags = entry_flags sample_env sample_text (ascii ''url'', url_pattern),
        fr_events = [entry_call sample_text (ascii ''url'', url_pattern),
                     entry_call sample_text (ascii ''huge'', huge_repeat_pattern)]\<rparr>)"
    unfolding ps by (rule raising_loop) (simp_all add: url_entry sample_findall_huge)
  show ?thesis
    by (simp add: analyze_email_raises [OF sample_text_valid loop] entry_call_def)
qed

lemma nested_analysis:
  "analyze_email sample_env nested_detector (PyStr sample_text) =
     \<lparr>result = Inl (RecursionError (ascii ''maximum recursion depth exceeded'')),
      self_after = nested_detector,
      effects = [ReFindall url_pattern sample_text [IGNORECASE],
                 ReFindall nested_pattern sample_text [IGNORECASE]]\<rparr>"
proof -
  have ps: "suspicious_patterns nested_detector =
      [(ascii ''url'', url_pattern), (ascii ''nested'', nested_pattern)]"
    by (simp add: nested_detector_def)
  have loop: "match_loop sample_env sample_text (suspicious_patterns nested_detector)
      (start_frame nested_detector) =
      (Some (RecursionError (ascii ''maximum recursion depth exceeded'')),
       \<lparr>fr_self = nested_detector,
        fr_score = entry_score sample_env nested_detector sample_text (ascii ''url'', url_pattern),
        fr_flags = entry_flags sample_env sample_text (ascii ''url'', url_pattern),
        fr_events = [entry_call sample_text (ascii ''url'', url_pattern),
                     entry_call sample_text (ascii ''nested'', nested_pattern)]\<rparr>)"
    unfolding ps by (rule raising_loop) (simp_all add: url_entry sample_findall_nested)
  show ?thesis
    by (simp add: analyze_email_raises [OF sample_text_valid loop] entry_call_def)
qed

section \<open>What \<open>analyze_email\<close> and \<open>print_results\<close> do\<close>

text \<open>
  C3, as stated, fails. With the pattern \<open>(http)://\S+\<close> under the label \<open>url\<close>, the engine
  matches the whole link in the sample text, and the flag is \<open>url found: http\<close>: it lists
  what the capture group took, not the matched substring. And with the pattern
  \<open>http://\S+\<close> followed by an entry of a thousand nested groups, the first entry is a
  valid regex with a match, yet \<open>analyze_email\<close> returns no score and no flag: the
  \<open>RecursionError\<close> of the second call leaves the method.
\<close>

theorem flag_lists_group_not_match:
  "re_finditer sample_env group_pattern sample_text [IGNORECASE] =
     Found [\<lparr>m_whole = sample_url, m_groups = [ascii ''http'']\<rparr>] \<and>
   result (analyze_email sample_env group_detector (PyStr sample_text)) =
     Inr (7, [ascii ''url found: http'', ascii ''No organization detected'']) \<and>
   ascii ''url found: http'' \<noteq> ascii ''url found: '' @ sample_url \<and>
   re_finditer sample_env url_pattern sample_text [IGNORECASE] =
     Found [\<lparr>m_whole = sample_url, m_groups = []\<rparr>] \<and>
   result (analyze_email sample_env nested_detector (PyStr sample_text)) =
     Inl (RecursionError (ascii ''maximum recursion depth exceeded''))"
proof -
  have "re_finditer sample_env group_pattern sample_text [IGNORECASE] =
      Found [\<lparr>m_whole = sample_url, m_groups = [ascii ''http'']\<rparr>]"
    by (simp add: sample_env_def not_nested)
      (simp add: url_pattern_def group_pattern_def huge_repeat_pattern_def ascii_def)
  moreover have "re_finditer sample_env url_pattern sample_text [IGNORECASE] =
      Found [\<lparr>m_whole = sample_url, m_groups = []\<rparr>]"
    by (simp add: sample_env_def not_nested)
      (simp add: url_pattern_def huge_repeat_pattern_def ascii_def)
  moreover have "ascii ''url found: http'' \<noteq> ascii ''url found: '' @ sample_url"
    by (simp add: sample_url_def ascii_def)
  ultimately show ?thesis
    by (simp add: group_analysis nested_analysis)
qed

text \<open>
  C3, amended: on a valid text, when no call of \<open>re.findall\<close> on the patterns of the
  detector raises anything but \<open>re.error\<close>, \<open>analyze_email\<close> calls \<open>re.findall\<close> with
  \<open>IGNORECASE\<close> once for every entry \<open>(label, pattern)\<close> of \<open>suspicious_patterns\<close>, in order,
  and then the pipeline. When the call of the entry returns a list that is not empty, the
  entry adds to the returned score the weight of its label in \<open>scoring_rules\<close> (0 when the
  label has none), and to the returned flags, between those of the entries before it and
  those of the entries after it, the one flag \<open>label found: \<close> followed by \<open>str\<close> of each
  item of the list, joined by commas: the matched substring when the pattern has no
  capture group, what the group took when it has one, the tuple of the groups when it has
  several. When the list is empty the entry adds nothing to the score and no flag.
\<close>

theorem pattern_entry_contribution:
  assumes "strip text \<noteq> []"
    and "patterns_safe E D text"
    and "suspicious_patterns D = pre @ (label, pattern) # post"
    and "re_findall E pattern text [IGNORECASE] = Found matches"
  shows
    "analyze_email E D (PyStr text) =
       \<lparr>result =
          Inr (sum_list (map (entry_score E D text) pre) +
                 (if matches \<noteq> []
                  then (case map_of (scoring_rules D) label of None \<Rightarrow> 0 | Some w \<Rightarrow> w)
                  else 0) +
                 sum_list (map (entry_score E D text) post) + org_score D text,
               concat (map (entry_flags E text) pre) @
                 (if matches \<noteq> []
                  then [label @ ascii '' found: '' @ join (ascii '', '') (map (str_match E) matches)]
                  else []) @
                 concat (map (entry_flags E text) post) @ org_flags D text),
        self_after = D,
        effects = map (entry_call text) pre @ [ReFindall pattern text [IGNORECASE]] @
                  map (entry_call text) post @ [NlpCall text]\<rparr>"
  using assms(4)
  by (simp add: analyze_email_returns [OF assms(1) assms(2)] assms(3) entry_score_def
      entry_triggered_def entry_flags_def entry_call_def weight_of_def)

theorem pattern_entry_contribution_witness:
  "strip sample_text \<noteq> [] \<and>
   patterns_safe sample_env sample_detector sample_text \<and>
   suspicious_patterns sample_detector =
     [] @ (ascii ''url'', url_pattern) # [(ascii ''broken'', ascii ''('')] \<and>
   re_findall sample_env url_pattern sample_text [IGNORECASE] = Found [MatchStr sample_url] \<and>
   result (analyze_email sample_env sample_detector (PyStr sample_text)) =
     Inr (7, [ascii ''url found: http://fakebank-login.com/verify'',
        ascii ''Invalid regex pattern for broken: missing ), unterminated subpattern at position 0'',
        ascii ''No organization detected''])"
  using pattern_entry_contribution
      [OF sample_text_valid sample_safe sample_patterns sample_findall_url]
    sample_text_valid sample_safe sample_patterns sample_findall_url
  by (simp add: sample_analysis)

text \<open>
  C4, as stated, fails: the sample text is valid, but with an entry of a thousand nested
  groups the call of \<open>re.findall\<close> raises \<open>RecursionError\<close>, which is not an \<open>re.error\<close>;
  \<open>analyze_email\<close> raises it and the pipeline is never called. The same happens with the
  \<open>OverflowError\<close> of a repetition count too large.
\<close>

theorem organization_check_skipped:
  "strip sample_text \<noteq> [] \<and>
   analyze_email sample_env nested_detector (PyStr sample_text) =
     \<lparr>result = Inl (RecursionError (ascii ''maximum recursion depth exceeded'')),
      self_after = nested_detector,
      effects = [ReFindall url_pattern sample_text [IGNORECASE],
                 ReFindall nested_pattern sample_text [IGNORECASE]]\<rparr> \<and>
   NlpCall sample_text \<notin> set (effects (analyze_email sample_env huge_repeat_detector (PyStr sample_text)))"
  using sample_text_valid by (simp add: nested_analysis huge_analysis)

text \<open>
  C4, amended: for every valid text on which no call of \<open>re.findall\<close> on the patterns of
  the detector raises anything but \<open>re.error\<close>, the pattern loop ends and the pipeline is
  called once, after the calls of the loop. When no entity it returns is labelled \<open>ORG\<close>,
  the result is the score of the loop plus the weight of \<open>missing_organization\<close> (0 when
  unset) and the flags of the loop followed by \<open>No organization detected\<close>; when one is,
  the result is the score and the flags of the loop.
\<close>

theorem organization_check_effect:
  assumes "strip text \<noteq> []" and "patterns_safe E D text"
  shows
    "\<exists>fr. match_loop E text (suspicious_patterns D) (start_frame D) = (None, fr) \<and>
          effects (analyze_email E D (PyStr text)) = fr_events fr @ [NlpCall text] \<and>
          result (analyze_email E D (PyStr text)) =
            Inr (if list_ex (\<lambda>ent. ent_label ent = ascii ''ORG'') (nlp D text)
                 then (fr_score fr, fr_flags fr)
                 else (fr_score fr +
                         (case map_of (scoring_rules D) (ascii ''missing_organization'') of
                            None \<Rightarrow> 0 | Some w \<Rightarrow> w),
                       fr_flags fr @ [ascii ''No organization detected'']))"
proof -
  from assms(2) have safe:
    "list_all (\<lambda>item. \<not> entry_raises E text item) (suspicious_patterns D)"
    by (simp add: patterns_safe_def)
  obtain fr where loop: "match_loop E text (suspicious_patterns D) (start_frame D) = (None, fr)"
    using match_loop_safe [OF safe] by blast
  have "effects (analyze_email E D (PyStr text)) = fr_events fr @ [NlpCall text]"
    by (simp add: analyze_email_loop [OF assms(1) loop])
  moreover have "result (analyze_email E D (PyStr text)) =
      Inr (if list_ex (\<lambda>ent. ent_label ent = ascii ''ORG'') (nlp D text)
           then (fr_score fr, fr_flags fr)
           else (fr_score fr +
                   (case map_of (scoring_rules D) (ascii ''missing_organization'') of
                      None \<Rightarrow> 0 | Some w \<Rightarrow> w),
                 fr_flags fr @ [ascii ''No organization detected'']))"
    by (simp add: analyze_email_loop [OF assms(1) loop] org_score_def org_flags_def has_org_def
        weight_of_def)
  ultimately show ?thesis using loop by blast
qed

theorem organization_check_effect_witness:
  "strip sample_text \<noteq> [] \<and>
   patterns_safe sample_env sample_detector sample_text \<and>
   (\<exists>fr. match_loop sample_env sample_text (suspicious_patterns sample_detector)
            (start_frame sample_detector) = (None, fr) \<and>
      effects (analyze_email sample_env sample_detector (PyStr sample_text)) =
        fr_events fr @ [NlpCall sample_text]) \<and>
   result (analyze_email sample_env sample_detector (PyStr sample_text)) =
     Inr (7, [ascii ''url found: http://fakebank-login.com/verify'',
              ascii ''Invalid regex pattern for broken: missing ), unterminated subpattern at position 0'',
              ascii ''No organization detected''])"
proof -
  from organization_check_effect [OF sample_text_valid sample_safe]
  obtain fr where "match_loop sample_env sample_text (suspicious_patterns sample_detector)
        (start_frame sample_detector) = (None, fr) \<and>
      effects (analyze_email sample_env sample_detector (PyStr sample_text)) =
        fr_events fr @ [NlpCall sample_text]"
    by blast
  then have "\<exists>fr. match_loop sample_env sample_text (suspicious_patterns sample_detector)
        (start_frame sample_detector) = (None, fr) \<and>
      effects (analyze_email sample_env sample_detector (PyStr sample_text)) =
        fr_events fr @ [NlpCall sample_text]"
    by blast
  with sample_text_valid sample_safe show ?thesis
    by (simp add: sample_analysis)
qed


text \<open>
  C6: for the empty string and for every value that is not a string, \<open>analyze_email\<close>
  raises \<open>ValueError("Invalid or empty email text")\<close> and has called neither
  \<open>re.findall\<close> nor the pipeline.
\<close>

theorem analyze_email_rejects_invalid:
  assumes "v = PyStr [] \<or> \<not> isinstance_str v"
  shows "analyze_email E D v =
           \<lparr>result = Inl (ValueError (ascii ''Invalid or empty email text'')),
            self_after = D, effects = []\<rparr>"
  using assms
  by (cases v) (auto simp add: analyze_email_def invalid_text_def strip_def)

theorem analyze_email_rejects_invalid_witness:
  "\<not> isinstance_str PyNone \<and>
   analyze_email sample_env sample_detector (PyStr []) =
     \<lparr>result = Inl (ValueError (ascii ''Invalid or empty email text'')),
      self_after = sample_detector, effects = []\<rparr> \<and>
   analyze_email sample_env sample_detector PyNone =
     \<lparr>result = Inl (ValueError (ascii ''Invalid or empty email text'')),
      self_after = sample_detector, effects = []\<rparr>"
  using analyze_email_rejects_invalid [of "PyStr []" sample_env sample_detector]
    analyze_email_rejects_invalid [of PyNone sample_env sample_detector]
  by simp

text \<open>
  A pattern the engine rejects with \<open>re.error\<close> is recovered: on a valid text, when no
  call raises anything else, its entry adds nothing to the score and the one flag
  \<open>Invalid regex pattern for label: message\<close>, between the flags of the entries before
  and after it, and the entity check follows.
\<close>

lemma re_error_recovered:
  assumes "strip text \<noteq> []"
    and "patterns_safe E D text"
    and "suspicious_patterns D = pre @ (label, pattern) # post"
    and "re_findall E pattern text [IGNORECASE] = PatternError msg"
  shows
    "result (analyze_email E D (PyStr text)) =
       Inr (sum_list (map (entry_score E D text) pre) +
              sum_list (map (entry_score E D text) post) + org_score D text,
            concat (map (entry_flags E text) pre) @
              [ascii ''Invalid regex pattern for '' @ label @ ascii '': '' @ msg] @
              concat (map (entry_flags E text) post) @ org_flags D text)"
  using assms(4)
  by (simp add: analyze_email_returns [OF assms(1) assms(2)] assms(3) entry_score_def
      entry_triggered_def entry_flags_def)

text \<open>
  C7 fails on the code where the engine refuses a malformed pattern with an exception
  that is not \<open>re.error\<close>. Python refuses the pattern \<open>a{99999999999999999999}\<close> with
  \<open>OverflowError("the repetition number is too large")\<close>; the \<open>except re.error\<close> of line
  47 does not catch it, so with the entries \<open>url\<close> and \<open>huge\<close> on the sample text
  \<open>analyze_email\<close> raises the \<open>OverflowError\<close>: no flag is appended for the entry, the
  score and the flag of the entry before it are lost, and the pipeline is never called.
\<close>

theorem oversized_repeat_escapes:
  "strip sample_text \<noteq> [] \<and>
   suspicious_patterns huge_repeat_detector =
     [(ascii ''url'', url_pattern), (ascii ''huge'', huge_repeat_pattern)] \<and>
   re_finditer sample_env huge_repeat_pattern sample_text [IGNORECASE] =
     Raised (OverflowError (ascii ''the repetition number is too large'')) \<and>
   analyze_email sample_env huge_repeat_detector (PyStr sample_text) =
     \<lparr>result = Inl (OverflowError (ascii ''the repetition number is too large'')),
      self_after = huge_repeat_detector,
      effects = [ReFindall url_pattern sample_text [IGNORECASE],
                 ReFindall huge_repeat_pattern sample_text [IGNORECASE]]\<rparr>"
proof -
  have "re_finditer sample_env huge_repeat_pattern sample_text [IGNORECASE] =
      Raised (OverflowError (ascii ''the repetition number is too large''))"
    by (simp add: sample_env_def not_nested)
  with sample_text_valid show ?thesis
    by (simp add: huge_analysis) (simp add: huge_repeat_detector_def)
qed

lemma sum_list_entry_score:
  "sum_list (map (entry_score E D text) items) =
     sum_list (map (\<lambda>item. weight_of D (fst item)) (filter (entry_triggered E text) items))"
  by (induction items) (simp_all add: entry_score_def)

lemma length_entry_flags:
  "length (concat (map (entry_flags E text) items)) =
     length (filter (entry_triggered E text) items) + length (filter (entry_invalid E text) items)"
  by (induction items)
    (simp_all add: entry_flags_def entry_triggered_def entry_invalid_def split: re_outcome.splits)

lemma nested_triggered_weights:
  "sum_list (triggered_weights sample_env nested_detector sample_text) = 7"
proof -
  have nested: "\<not> entry_triggered sample_env sample_text (ascii ''nested'', nested_pattern)"
    by (simp add: entry_triggered_def sample_findall_nested)
  have w: "weight_of nested_detector = weight_of sample_detector"
    by (rule ext) (simp add: weight_of_def nested_detector_def)
  have org: "\<not> has_org nested_detector sample_text"
    by (simp add: has_org_def nested_detector_def sample_detector_def)
  have ps: "suspicious_patterns nested_detector =
      [(ascii ''url'', url_pattern), (ascii ''nested'', nested_pattern)]"
    by (simp add: nested_detector_def)
  show ?thesis
    by (simp add: triggered_weights_def ps url_entry nested org w sample_weights)
qed

text \<open>
  C8, as stated, fails: the sample text is valid and not empty, and the triggered weights
  of the detector with the entry of a thousand nested groups sum to 7, but
  \<open>analyze_email\<close> returns no score and no flags: it raises the \<open>RecursionError\<close> of
  \<open>re.findall\<close>. With a repetition count too large it raises the \<open>OverflowError\<close>.
\<close>

theorem analysis_returns_nothing:
  "strip sample_text \<noteq> [] \<and>
   result (analyze_email sample_env nested_detector (PyStr sample_text)) =
     Inl (RecursionError (ascii ''maximum recursion depth exceeded'')) \<and>
   sum_list (triggered_weights sample_env nested_detector sample_text) = 7 \<and>
   result (analyze_email sample_env huge_repeat_detector (PyStr sample_text)) =
     Inl (OverflowError (ascii ''the repetition number is too large''))"
  using sample_text_valid
  by (simp add: nested_analysis huge_analysis nested_triggered_weights)

text \<open>
  C8, amended: for every valid text on which no call of \<open>re.findall\<close> on the patterns of
  the detector raises anything but \<open>re.error\<close>, \<open>analyze_email\<close> returns a score and
  flags; the score is the sum of the triggered weights, and there are at least as many
  flags as triggered entries, plus one when no entity is an organization.
\<close>

theorem analyze_email_score_and_flags:
  assumes "strip text \<noteq> []" and "patterns_safe E D text"
  shows
    "\<exists>total fl.
       result (analyze_email E D (PyStr text)) = Inr (total, fl) \<and>
       total = sum_list (triggered_weights E D text) \<and>
       length fl \<ge> length (filter (entry_triggered E text) (suspicious_patterns D)) +
                   (if has_org D text then 0 else 1)"
  by (simp add: analyze_email_returns [OF assms] sum_list_entry_score length_entry_flags
      triggered_weights_def org_score_def org_flags_def)

lemma sample_triggered:
  "filter (entry_triggered sample_env sample_text) (suspicious_patterns sample_detector) =
     [(ascii ''url'', url_pattern)]"
  by (simp add: sample_patterns url_entry broken_entry)

theorem analyze_email_score_and_flags_witness:
  "strip sample_text \<noteq> [] \<and>
   patterns_safe sample_env sample_detector sample_text \<and>
   result (analyze_email sample_env sample_detector (PyStr sample_text)) =
     Inr (7, [ascii ''url found: http://fakebank-login.com/verify'',
        ascii ''Invalid regex pattern for broken: missing ), unterminated subpattern at position 0'',
        ascii ''No organization detected'']) \<and>
   sum_list (triggered_weights sample_env sample_detector sample_text) = 7 \<and>
   length (filter (entry_triggered sample_env sample_text) (suspicious_patterns sample_detector)) +
     (if has_org sample_detector sample_text then 0 else 1) = 2"
  using analyze_email_score_and_flags [OF sample_text_valid sample_safe]
    sample_text_valid sample_safe
  by (simp add: sample_analysis sample_triggered sample_no_org)

text \<open>
  C9: whatever the input, the detector after \<open>analyze_email\<close> is the detector before it,
  with the same pipeline, configuration, patterns and weights, also when the method
  raises, and so it is after \<open>print_results\<close>.
\<close>

theorem detector_unchanged:
  "self_after (analyze_email E D v) = D \<and> self_after (print_results D n fl) = D"
proof -
  have "self_after (analyze_email E D v) = D"
  proof (cases v)
    case (PyStr s)
    show ?thesis
    proof (cases "strip s = []")
      case True
      with PyStr show ?thesis by (simp add: analyze_email_def invalid_text_def)
    next
      case False
      obtain r fr where loop: "match_loop E s (suspicious_patterns D) (start_frame D) = (r, fr)"
        by (cases "match_loop E s (suspicious_patterns D) (start_frame D)")
      show ?thesis
      proof (cases r)
        case None
        with loop PyStr show ?thesis by (simp add: analyze_email_loop [OF False])
      next
        case (Some e)
        with loop PyStr show ?thesis by (simp add: analyze_email_raises [OF False])
      qed
    qed
  qed (simp_all add: analyze_email_def invalid_text_def)
  then show ?thesis by (simp add: print_results_def)
qed

text \<open>
  C10: a string that is not empty and holds only whitespace is rejected as the empty
  string is: the same \<open>ValueError\<close>, and nothing called.
\<close>

theorem analyze_email_rejects_whitespace:
  assumes "text \<noteq> []" and "list_all py_isspace text"
  shows "analyze_email E D (PyStr text) = analyze_email E D (PyStr []) \<and>
         analyze_email E D (PyStr text) =
           \<lparr>result = Inl (ValueError (ascii ''Invalid or empty email text'')),
            self_after = D, effects = []\<rparr>"
  using assms(2) by (simp add: analyze_email_def invalid_text_def strip_empty_iff)

theorem analyze_email_rejects_whitespace_witness:
  "[32, 9, 10, 160, 8195] \<noteq> ([] :: pystr) \<and> list_all py_isspace [32, 9, 10, 160, 8195] \<and>
   analyze_email sample_env sample_detector (PyStr [32, 9, 10, 160, 8195]) =
     \<lparr>result = Inl (ValueError (ascii ''Invalid or empty email text'')),
      self_after = sample_detector, effects = []\<rparr>"
proof -
  have ne: "[32, 9, 10, 160, 8195] \<noteq> ([] :: pystr)" by simp
  have ws: "list_all py_isspace [32, 9, 10, 160, 8195]" by (simp add: py_isspace_def)
  from analyze_email_rejects_whitespace [OF ne ws, of sample_env sample_detector] ne ws
  show ?thesis by blast
qed

end
